theory Spec2Isabelle
  imports Main
begin

section \<open>JavaScript values\<close>

text \<open>
  A string-valued JavaScript expression that may be \<open>undefined\<close> or \<open>null\<close> is a
  \<open>string option\<close>; \<open>None\<close> stands for both. A JSON value is a \<open>json\<close>; an object keeps
  its fields in order.
\<close>

datatype json = JNull | JStr string | JNum nat | JBool bool | JObj "(string \<times> json) list"

text \<open>Truthiness of a string-or-undefined value: \<open>undefined\<close>, \<open>null\<close> and \<open>""\<close> are falsy.\<close>

definition truthy :: "string option \<Rightarrow> bool" where
  "truthy v = (case v of None \<Rightarrow> False | Some s \<Rightarrow> s \<noteq> [])"

text \<open>The string behind a value already tested truthy.\<close>

definition str_of :: "string option \<Rightarrow> string" where
  "str_of v = (case v of None \<Rightarrow> [] | Some s \<Rightarrow> s)"

text \<open>\<open>a || d\<close> for a string-or-undefined \<open>a\<close> and a string literal \<open>d\<close>.\<close>

definition js_or :: "string option \<Rightarrow> string \<Rightarrow> string" where
  "js_or a d = (case a of None \<Rightarrow> d | Some s \<Rightarrow> if s = [] then d else s)"

text \<open>\<open>s.split(' ')\<close>: every single space separates; the result is never empty.\<close>

fun split_sp :: "string \<Rightarrow> string list" where
  "split_sp [] = [[]]"
| "split_sp (c # cs) =
     (if c = CHR '' '' then [] # split_sp cs
      else (case split_sp cs of [] \<Rightarrow> [[c]] | w # ws \<Rightarrow> (c # w) # ws))"

text \<open>\<open>xs[i]\<close>: \<open>undefined\<close> out of range.\<close>

fun nth_opt :: "'a list \<Rightarrow> nat \<Rightarrow> 'a option" where
  "nth_opt [] i = None"
| "nth_opt (x # xs) 0 = Some x"
| "nth_opt (x # xs) (Suc i) = nth_opt xs i"

text \<open>\<open>s.toLowerCase()\<close> on the ASCII letters.\<close>

definition lower_char :: "char \<Rightarrow> char" where
  "lower_char c =
     (case map_of (zip ''ABCDEFGHIJKLMNOPQRSTUVWXYZ'' ''abcdefghijklmnopqrstuvwxyz'') c of
        Some l \<Rightarrow> l
      | None \<Rightarrow> c)"

definition toLowerCase :: "string \<Rightarrow> string" where
  "toLowerCase s = map lower_char s"

text \<open>A thrown error, with the two fields the handlers inspect: \<open>error.name\<close>, \<open>error.code\<close>.\<close>

datatype js_error = Error (err_name: string) (err_code: "nat option")

section \<open>The server: data and collaborators\<close>

text \<open>
  The user document (models/User.js), with the fields the handlers read or write; \<open>uid\<close>
  is its \<open>_id\<close>, and \<open>password\<close> is \<open>None\<close> in a document selected without it.
\<close>

record user =
  uid :: string
  email :: string
  password :: "string option"
  name :: string
  preferences :: json
  lastLoginAt :: "nat option"

type_synonym db = "user list"

text \<open>The decoded token payload: \<open>{ userId }\<close>.\<close>

record payload =
  userId :: string

text \<open>
  What the handlers are given: the process environment, and the libraries they call
  (jsonwebtoken, mongoose, bcryptjs). A library call that can throw returns a sum, \<open>Inl\<close>
  the thrown error: \<open>jwt.verify\<close> throws on a token it does not accept, \<open>jwt.sign\<close> on
  options it cannot use (an \<open>expiresIn\<close> that is no time span). The store operations read
  the collection they are given; \<open>save\<close> returns the saved document and the new
  collection, and a save that throws leaves the collection as it was.
\<close>

record env =
  JWT_SECRET :: "string option"
  JWT_REFRESH_SECRET :: "string option"
  JWT_EXPIRES_IN :: "string option"
  jwt_verify :: "string \<Rightarrow> string \<Rightarrow> js_error + payload"
  jwt_sign :: "payload \<Rightarrow> string \<Rightarrow> string \<Rightarrow> js_error + string"
  findById :: "string \<Rightarrow> db \<Rightarrow> js_error + user option"
  findOne_email :: "string \<Rightarrow> db \<Rightarrow> js_error + user option"
  new_User :: "string \<Rightarrow> string \<Rightarrow> string \<Rightarrow> user"
  save :: "user \<Rightarrow> db \<Rightarrow> js_error + user \<times> db"
  bcrypt_compare :: "string \<Rightarrow> string \<Rightarrow> js_error + bool"
  new_Date :: nat

text \<open>
  What a middleware does with the response object and the continuation:
  \<open>res.status(n).json(body)\<close> is \<open>Send n body\<close>, \<open>next()\<close> is \<open>Next\<close>.
\<close>

datatype effect = Send nat json | Next

text \<open>The error body \<open>{ message: m, error: e }\<close>.\<close>

definition err_json :: "string \<Rightarrow> string \<Rightarrow> json" where
  "err_json m e = JObj [(''message'', JStr m), (''error'', JStr e)]"

section \<open>middleware/auth.js\<close>

text \<open>\<open>authHeader && authHeader.split(' ')[1]\<close>\<close>

definition header_token :: "string option \<Rightarrow> string option" where
  "header_token authHeader =
     (case authHeader of
        None \<Rightarrow> None
      | Some h \<Rightarrow> if h = [] then Some [] else nth_opt (split_sp h) 1)"

text \<open>\<open>.select('-password')\<close>\<close>

definition select_no_password :: "user \<Rightarrow> user" where
  "select_no_password u = u\<lparr>password := None\<rparr>"

text \<open>The \<open>catch\<close> block of \<open>authenticateToken\<close>.\<close>

definition auth_catch :: "js_error \<Rightarrow> effect list" where
  "auth_catch error =
     (if err_name error = ''JsonWebTokenError''
        then [Send 403 (err_json ''Invalid token'' ''INVALID_TOKEN'')]
      else if err_name error = ''TokenExpiredError''
        then [Send 403 (err_json ''Token expired'' ''TOKEN_EXPIRED'')]
      else [Send 500 (err_json ''Server error during authentication'' ''AUTH_SERVER_ERROR'')])"

text \<open>
  \<open>authenticateToken(req, res, next)\<close>: from the Authorization header and the value of
  \<open>req.user\<close> on entry, the value of \<open>req.user\<close> on exit and what was done with \<open>res\<close> and
  \<open>next\<close>.
\<close>

definition authenticateToken ::
  "env \<Rightarrow> db \<Rightarrow> string option \<Rightarrow> user option \<Rightarrow> user option \<times> effect list" where
  "authenticateToken env db authHeader req_user =
     (let token = header_token authHeader in
      if \<not> truthy token
        then (req_user, [Send 401 (err_json ''Access token is required'' ''NO_TOKEN'')])
      else
        (case jwt_verify env (str_of token)
                (js_or (JWT_SECRET env) ''your-secret-key'') of
           Inl error \<Rightarrow> (req_user, auth_catch error)
         | Inr decoded \<Rightarrow>
             (case findById env (userId decoded) db of
                Inl error \<Rightarrow> (req_user, auth_catch error)
              | Inr None \<Rightarrow>
                  (req_user, [Send 401 (err_json ''User not found'' ''INVALID_USER'')])
              | Inr (Some u) \<Rightarrow> (Some (select_no_password u), [Next]))))"

text \<open>\<open>optionalAuth(req, res, next)\<close>\<close>

definition optionalAuth ::
  "env \<Rightarrow> db \<Rightarrow> string option \<Rightarrow> user option \<Rightarrow> user option \<times> effect list" where
  "optionalAuth env db authHeader req_user =
     (let token = header_token authHeader in
      if truthy token then
        (case jwt_verify env (str_of token)
                (js_or (JWT_SECRET env) ''your-secret-key'') of
           Inl error \<Rightarrow> (req_user, [Next])
         | Inr decoded \<Rightarrow>
             (case findById env (userId decoded) db of
                Inl error \<Rightarrow> (req_user, [Next])
              | Inr found \<Rightarrow> (map_option select_no_password found, [Next])))
      else (req_user, [Next]))"

definition generateToken :: "env \<Rightarrow> string \<Rightarrow> js_error + string" where
  "generateToken env uid' =
     jwt_sign env \<lparr>userId = uid'\<rparr> (js_or (JWT_SECRET env) ''your-secret-key'')
       (js_or (JWT_EXPIRES_IN env) ''7d'')"

definition generateRefreshToken :: "env \<Rightarrow> string \<Rightarrow> js_error + string" where
  "generateRefreshToken env uid' =
     jwt_sign env \<lparr>userId = uid'\<rparr>
       (js_or (JWT_REFRESH_SECRET env) ''your-refresh-secret-key'') ''30d''"

section \<open>models/User.js\<close>

text \<open>\<open>User.findByEmail(email)\<close>: \<open>findOne({ email: email.toLowerCase() })\<close>\<close>

definition findByEmail :: "env \<Rightarrow> string \<Rightarrow> db \<Rightarrow> js_error + user option" where
  "findByEmail env email' db = findOne_email env (toLowerCase email') db"

text \<open>
  \<open>user.comparePassword(candidate)\<close>: \<open>bcrypt.compare(candidate, this.password)\<close>, which
  throws when the document carries no hash.
\<close>

definition comparePassword :: "env \<Rightarrow> user \<Rightarrow> string \<Rightarrow> js_error + bool" where
  "comparePassword env u candidatePassword =
     (case password u of
        None \<Rightarrow> Inl (Error ''Error'' None)
      | Some hash \<Rightarrow> bcrypt_compare env candidatePassword hash)"

section \<open>routes/auth.js\<close>

text \<open>
  A handler takes the request body, an object of string fields (a field not sent is
  \<open>None\<close>), and returns the status and JSON body it sends; \<open>register\<close> and \<open>login\<close> also
  return the collection they leave behind.
\<close>

type_synonym response = "nat \<times> json"

text \<open>The \<open>catch\<close> block of \<open>POST /register\<close>.\<close>

definition register_catch :: "js_error \<Rightarrow> response" where
  "register_catch error =
     (if err_code error = Some 11000
        then (400, err_json ''Email already exists'' ''DUPLICATE_EMAIL'')
      else (500, err_json ''Server error during registration'' ''REGISTRATION_ERROR''))"

definition register :: "env \<Rightarrow> db \<Rightarrow> (string \<rightharpoonup> string) \<Rightarrow> response \<times> db" where
  "register env db body =
     (let email = body ''email''; password = body ''password'';
          confirmPassword = body ''confirmPassword''; name = body ''name'' in
      if \<not> truthy email \<or> \<not> truthy password
        then ((400, err_json ''Email and password are required'' ''MISSING_FIELDS''), db)
      else if password \<noteq> confirmPassword
        then ((400, err_json ''Passwords do not match'' ''PASSWORD_MISMATCH''), db)
      else if length (str_of password) < 6
        then ((400, err_json ''Password must be at least 6 characters long''
                 ''PASSWORD_TOO_SHORT''), db)
      else
        (case findByEmail env (str_of email) db of
           Inl error \<Rightarrow> (register_catch error, db)
         | Inr (Some existingUser) \<Rightarrow>
             ((400, err_json ''User with this email already exists'' ''USER_EXISTS''), db)
         | Inr None \<Rightarrow>
             (case save env (new_User env (str_of email) (str_of password) (js_or name [])) db of
                Inl error \<Rightarrow> (register_catch error, db)
              | Inr (u, db1) \<Rightarrow>
                  (case generateToken env (uid u) of
                     Inl error \<Rightarrow> (register_catch error, db1)
                   | Inr token \<Rightarrow>
                       (case generateRefreshToken env (uid u) of
                          Inl error \<Rightarrow> (register_catch error, db1)
                        | Inr refreshToken \<Rightarrow>
                            (case save env (u\<lparr>lastLoginAt := Some (new_Date env)\<rparr>) db1 of
                               Inl error \<Rightarrow> (register_catch error, db1)
                             | Inr (u', db2) \<Rightarrow>
                                 ((201,
                                   JObj [(''message'', JStr ''User registered successfully''),
                                         (''user'', JObj [(''id'', JStr (uid u')),
                                                          (''email'', JStr (user.email u')),
                                                          (''name'', JStr (user.name u')),
                                                          (''preferences'', preferences u')]),
                                         (''token'', JStr token),
                                         (''refreshToken'', JStr refreshToken)]), db2)))))))"

definition login :: "env \<Rightarrow> db \<Rightarrow> (string \<rightharpoonup> string) \<Rightarrow> response \<times> db" where
  "login env db body =
     (let email = body ''email''; password = body ''password'' in
      if \<not> truthy email \<or> \<not> truthy password
        then ((400, err_json ''Email and password are required'' ''MISSING_FIELDS''), db)
      else
        (case findByEmail env (str_of email) db of
           Inl error \<Rightarrow> ((500, err_json ''Server error during login'' ''LOGIN_ERROR''), db)
         | Inr None \<Rightarrow>
             ((401, err_json ''Invalid email or password'' ''INVALID_CREDENTIALS''), db)
         | Inr (Some u) \<Rightarrow>
             (case comparePassword env u (str_of password) of
                Inl error \<Rightarrow> ((500, err_json ''Server error during login'' ''LOGIN_ERROR''), db)
              | Inr isPasswordValid \<Rightarrow>
                  if \<not> isPasswordValid
                    then ((401, err_json ''Invalid email or password'' ''INVALID_CREDENTIALS''), db)
                  else
                    (case generateToken env (uid u) of
                       Inl error \<Rightarrow>
                         ((500, err_json ''Server error during login'' ''LOGIN_ERROR''), db)
                     | Inr token \<Rightarrow>
                         (case generateRefreshToken env (uid u) of
                            Inl error \<Rightarrow>
                              ((500, err_json ''Server error during login'' ''LOGIN_ERROR''), db)
                          | Inr refreshToken \<Rightarrow>
                              (case save env (u\<lparr>lastLoginAt := Some (new_Date env)\<rparr>) db of
                                 Inl error \<Rightarrow>
                                   ((500, err_json ''Server error during login'' ''LOGIN_ERROR''),
                                    db)
                               | Inr (u', db1) \<Rightarrow>
                                   ((200,
                                     JObj [(''message'', JStr ''Login successful''),
                                           (''user'', JObj [(''id'', JStr (uid u')),
                                                            (''email'', JStr (user.email u')),
                                                            (''name'', JStr (user.name u')),
                                                            (''preferences'', preferences u'),
                                                            (''lastLoginAt'',
                                                               (case lastLoginAt u' of
                                                                  None \<Rightarrow> JNull
                                                                | Some t \<Rightarrow> JNum t))]),
                                           (''token'', JStr token),
                                           (''refreshToken'', JStr refreshToken)]), db1)))))))"

text \<open>
  \<open>POST /refresh\<close>: the handler has no access to the collection. Its \<open>catch\<close> covers the
  whole \<open>try\<close>: a throw of \<open>jwt.verify\<close> and a throw of \<open>jwt.sign\<close> inside
  \<open>generateToken\<close> are answered alike.
\<close>

definition refresh :: "env \<Rightarrow> (string \<rightharpoonup> string) \<Rightarrow> response" where
  "refresh env body =
     (let refreshToken = body ''refreshToken'' in
      if \<not> truthy refreshToken
        then (401, err_json ''Refresh token is required'' ''NO_REFRESH_TOKEN'')
      else
        (case jwt_verify env (str_of refreshToken)
                (js_or (JWT_REFRESH_SECRET env) ''your-refresh-secret-key'') of
           Inl error \<Rightarrow> (403, err_json ''Invalid refresh token'' ''INVALID_REFRESH_TOKEN'')
         | Inr decoded \<Rightarrow>
             (case generateToken env (userId decoded) of
                Inl error \<Rightarrow>
                  (403, err_json ''Invalid refresh token'' ''INVALID_REFRESH_TOKEN'')
              | Inr newToken \<Rightarrow> (200, JObj [(''token'', JStr newToken)]))))"

text \<open>\<open>body.k\<close> of a JSON body: \<open>undefined\<close> when the body has no such field.\<close>

definition field :: "json \<Rightarrow> string \<Rightarrow> json option" where
  "field j k = (case j of JObj kvs \<Rightarrow> map_of kvs k | _ \<Rightarrow> None)"

section \<open>context/AuthContext.jsx\<close>

text \<open>The reducer state; \<open>user\<close> is a JSON object or \<open>null\<close>.\<close>

record SessionState =
  user :: json
  token :: "string option"
  refreshToken :: "string option"
  isAuthenticated :: bool
  isLoading :: bool
  error :: "string option"

text \<open>\<open>initialState\<close>, read from \<open>localStorage\<close> when the module loads.\<close>

definition initialState :: "(string \<rightharpoonup> string) \<Rightarrow> SessionState" where
  "initialState localStorage =
     \<lparr>user = JNull, token = localStorage ''token'',
      refreshToken = localStorage ''refreshToken'',
      isAuthenticated = False, isLoading = True, error = None\<rparr>"

text \<open>
  The actions, each with the part of its payload the reducer reads: for \<open>AUTH_SUCCESS\<close>
  the payload's \<open>user\<close>, \<open>token\<close> and \<open>refreshToken\<close>. \<open>OTHER\<close> is any other action type.
\<close>

datatype action =
    AUTH_START
  | AUTH_SUCCESS json "string option" "string option"
  | AUTH_FAILURE string
  | LOGOUT
  | SET_LOADING bool
  | CLEAR_ERROR
  | UPDATE_USER json
  | OTHER

text \<open>\<open>{ ...a, ...b }\<close>: spreading \<open>null\<close> adds nothing; a key of \<open>b\<close> replaces that of \<open>a\<close>.\<close>

definition spread :: "json \<Rightarrow> (string \<times> json) list" where
  "spread j = (case j of JObj kvs \<Rightarrow> kvs | _ \<Rightarrow> [])"

fun set_prop :: "(string \<times> json) list \<Rightarrow> string \<times> json \<Rightarrow> (string \<times> json) list" where
  "set_prop [] kv = [kv]"
| "set_prop (kv' # kvs) kv = (if fst kv' = fst kv then kv # kvs else kv' # set_prop kvs kv)"

definition spread_merge :: "json \<Rightarrow> json \<Rightarrow> json" where
  "spread_merge a b = JObj (foldl set_prop (spread a) (spread b))"

fun authReducer :: "SessionState \<Rightarrow> action \<Rightarrow> SessionState" where
  "authReducer state AUTH_START = state\<lparr>isLoading := True, error := None\<rparr>"
| "authReducer state (AUTH_SUCCESS payload_user payload_token payload_refreshToken) =
     state\<lparr>user := payload_user, token := payload_token,
           refreshToken := payload_refreshToken,
           isAuthenticated := True, isLoading := False, error := None\<rparr>"
| "authReducer state (AUTH_FAILURE payload) =
     state\<lparr>user := JNull, token := None, refreshToken := None,
           isAuthenticated := False, isLoading := False, error := Some payload\<rparr>"
| "authReducer state LOGOUT =
     state\<lparr>user := JNull, token := None, refreshToken := None,
           isAuthenticated := False, isLoading := False, error := None\<rparr>"
| "authReducer state (SET_LOADING payload) = state\<lparr>isLoading := payload\<rparr>"
| "authReducer state CLEAR_ERROR = state\<lparr>error := None\<rparr>"
| "authReducer state (UPDATE_USER payload) = state\<lparr>user := spread_merge (user state) payload\<rparr>"
| "authReducer state OTHER = state"

text \<open>
  The axios request configuration, with the fields the client code and the server look at:
  \<open>url\<close>, \<open>data\<close> (the request body), \<open>headers.Authorization\<close> and the flag \<open>_retry\<close>
  (here \<open>retry\<close>; absent is \<open>False\<close>).
\<close>

record request_config =
  url :: string
  data :: "json option"
  Authorization :: "string option"
  retry :: bool

text \<open>\<open>axios.post(url, data)\<close> starts from a new configuration.\<close>

definition post_config :: "string \<Rightarrow> json option \<Rightarrow> request_config" where
  "post_config u d = \<lparr>url = u, data = d, Authorization = None, retry = False\<rparr>"

text \<open>A rejected request: \<open>error.config\<close> and \<open>error.response?.status\<close>.\<close>

record axios_error =
  config :: request_config
  response_status :: "nat option"

text \<open>A fulfilled request, with \<open>response.data.token\<close> (a string, or \<open>undefined\<close>).\<close>

record axios_response =
  status :: nat
  data_token :: "string option"

text \<open>
  What comes back for a request as it was sent: no response at all, or a status and the
  \<open>token\<close> field of the body.
\<close>

datatype answer = NoResponse | Answer nat "string option"

text \<open>What the client code is given: the base URL, and the network behind axios.\<close>

record client_env =
  API_BASE_URL :: string
  network :: "request_config \<Rightarrow> answer"

text \<open>
  How axios settles a request that was sent: a status from 200 to 299 fulfils, anything
  else rejects with an error that carries the configuration sent.
\<close>

definition settle :: "request_config \<Rightarrow> answer \<Rightarrow> axios_error + axios_response" where
  "settle cfg a =
     (case a of
        NoResponse \<Rightarrow> Inl \<lparr>config = cfg, response_status = None\<rparr>
      | Answer st tok \<Rightarrow>
          if 200 \<le> st \<and> st < 300 then Inr \<lparr>status = st, data_token = tok\<rparr>
          else Inl \<lparr>config = cfg, response_status = Some st\<rparr>)"

text \<open>
  What the client code changes: the reducer's current state, \<open>localStorage\<close>, the requests
  sent (in order, as sent), and the number of \<open>logout()\<close> calls started and not awaited.
\<close>

record client =
  session :: SessionState
  localStorage :: "string \<rightharpoonup> string"
  calls :: "request_config list"
  logouts_started :: nat

definition dispatch :: "action \<Rightarrow> client \<Rightarrow> client" where
  "dispatch a w = w\<lparr>session := authReducer (session w) a\<rparr>"

text \<open>A string-or-undefined value inside a template literal or as a storage value.\<close>

definition js_string :: "string option \<Rightarrow> string" where
  "js_string v = (case v of None \<Rightarrow> ''undefined'' | Some s \<Rightarrow> s)"

text \<open>A string-or-null value as a JSON field.\<close>

definition json_of :: "string option \<Rightarrow> json" where
  "json_of v = (case v of None \<Rightarrow> JNull | Some s \<Rightarrow> JStr s)"

text \<open>
  The request interceptor, with \<open>state\<close> the state the effect closed over: the
  configuration it returns.
\<close>

definition requestInterceptor :: "SessionState \<Rightarrow> request_config \<Rightarrow> request_config" where
  "requestInterceptor state cfg =
     (if truthy (token state)
        then cfg\<lparr>Authorization := Some (''Bearer '' @ js_string (token state))\<rparr>
      else cfg)"

text \<open>
  \<open>axios n cenv state cfg\<close> is a call on the axios instance, \<open>axios(cfg)\<close> or
  \<open>axios.post\<close>, made while the interceptors that the effect registered with \<open>state\<close> are
  in force: the request interceptor sees the configuration, the request is sent, and a
  response passes the response interceptor, whose first handler returns it and whose
  second handler, \<open>responseInterceptor\<close>, gets the rejection. The handler calls the same
  instance for the refresh and for the retry, both before the component can render again,
  so both calls pass the same interceptors. \<open>n\<close> bounds the depth of calls made from within
  calls; \<open>None\<close> is a call that has not settled within the bound. \<open>logout()\<close> is started
  and not awaited: the handler rejects without waiting for it.
\<close>

function axios ::
    "nat \<Rightarrow> client_env \<Rightarrow> SessionState \<Rightarrow> request_config \<Rightarrow> client
       \<Rightarrow> ((axios_error + axios_response) \<times> client) option"
  and responseInterceptor ::
    "nat \<Rightarrow> client_env \<Rightarrow> SessionState \<Rightarrow> axios_error \<Rightarrow> client
       \<Rightarrow> ((axios_error + axios_response) \<times> client) option"
where
  "axios 0 cenv state cfg w = None"
| "axios (Suc n) cenv state cfg w =
     (let sent = requestInterceptor state cfg;
          w = w\<lparr>calls := calls w @ [sent]\<rparr> in
      case settle sent (network cenv sent) of
        Inr response \<Rightarrow> Some (Inr response, w)
      | Inl err \<Rightarrow> responseInterceptor n cenv state err w)"
| "responseInterceptor n cenv state err w =
     (let originalRequest = config err in
      if response_status err = Some 403 \<and> \<not> retry originalRequest then
        (let originalRequest = originalRequest\<lparr>retry := True\<rparr> in
         case axios n cenv state
                (post_config (API_BASE_URL cenv @ ''/auth/refresh'')
                   (Some (JObj [(''refreshToken'', json_of (refreshToken state))]))) w of
           None \<Rightarrow> None
         | Some (Inr response, w) \<Rightarrow>
             (let newToken = data_token response;
                  w = w\<lparr>localStorage := (localStorage w)(''token'' \<mapsto> js_string newToken)\<rparr>;
                  w = dispatch (AUTH_SUCCESS (user state) newToken (refreshToken state)) w;
                  originalRequest =
                    originalRequest\<lparr>Authorization := Some (''Bearer '' @ js_string newToken)\<rparr>
              in axios n cenv state originalRequest w)
         | Some (Inl refreshError, w) \<Rightarrow>
             Some (Inl refreshError, w\<lparr>logouts_started := Suc (logouts_started w)\<rparr>))
      else Some (Inl err, w))"
  by pat_completeness auto
termination
  by (relation "measure (\<lambda>x. case x of Inl (n, _) \<Rightarrow> 2 * n | Inr (n, _) \<Rightarrow> 2 * n + 1)") auto

text \<open>
  \<open>logout()\<close>, once started, with \<open>state\<close> the state the enclosing render closed over. Its
  POST is a call on the same axios instance; its outcome is caught and ignored, and the
  \<open>finally\<close> block runs when the call has settled.
\<close>

definition logout :: "nat \<Rightarrow> client_env \<Rightarrow> SessionState \<Rightarrow> client \<Rightarrow> client option" where
  "logout n cenv state w =
     (case (if truthy (token state)
              then map_option snd
                     (axios n cenv state (post_config (API_BASE_URL cenv @ ''/auth/logout'') None) w)
            else Some w) of
        None \<Rightarrow> None
      | Some w1 \<Rightarrow>
          Some (dispatch LOGOUT
                  (w1\<lparr>localStorage :=
                        (localStorage w1)(''token'' := None, ''refreshToken'' := None)\<rparr>)))"

text \<open>The client state after a sequence of dispatched actions.\<close>

definition run_actions :: "SessionState \<Rightarrow> action list \<Rightarrow> SessionState" where
  "run_actions s acts = foldl authReducer s acts"

text \<open>The invariant of the session state.\<close>

definition session_invariant :: "SessionState \<Rightarrow> bool" where
  "session_invariant s =
     (isAuthenticated s \<longrightarrow> token s \<noteq> None \<and> refreshToken s \<noteq> None \<and> user s \<noteq> JNull)"

text \<open>An \<open>AUTH_SUCCESS\<close> whose payload carries a user and both tokens.\<close>

fun complete_payload :: "action \<Rightarrow> bool" where
  "complete_payload (AUTH_SUCCESS u t r) = (u \<noteq> JNull \<and> t \<noteq> None \<and> r \<noteq> None)"
| "complete_payload _ = True"

section \<open>A sample deployment\<close>

text \<open>
  A concrete environment to run the handlers in: one stored user, one live and one expired
  access token, one live refresh token, and a collection kept as a list with a unique
  index on the email.
\<close>

definition alice :: user where
  "alice = \<lparr>uid = ''u1'', email = ''a@b.com'', password = Some ''$2a$12$hash'',
            name = ''Alice'', preferences = JObj [(''theme'', JStr ''dark'')],
            lastLoginAt = None\<rparr>"

definition sample_db :: db where
  "sample_db = [alice]"

definition sample_verify :: "string \<Rightarrow> string \<Rightarrow> js_error + payload" where
  "sample_verify tok secret =
     (if secret = ''your-secret-key'' \<and> tok = ''live.access.u1'' then Inr \<lparr>userId = ''u1''\<rparr>
      else if secret = ''your-secret-key'' \<and> tok = ''live.access.u9'' then Inr \<lparr>userId = ''u9''\<rparr>
      else if secret = ''your-secret-key'' \<and> tok = ''old.access.u1''
        then Inl (Error ''TokenExpiredError'' None)
      else if secret = ''your-refresh-secret-key'' \<and> tok = ''live.refresh.u1''
        then Inr \<lparr>userId = ''u1''\<rparr>
      else if secret = ''your-refresh-secret-key'' \<and> tok = ''live.refresh.u9''
        then Inr \<lparr>userId = ''u9''\<rparr>
      else if secret = ''your-refresh-secret-key'' \<and> tok = ''old.refresh.u1''
        then Inl (Error ''TokenExpiredError'' None)
      else Inl (Error ''JsonWebTokenError'' None))"

text \<open>
  The time spans the sample \<open>jwt.sign\<close> accepts as \<open>expiresIn\<close>: digits, with or without
  one unit letter (\<open>60\<close>, \<open>7d\<close>, \<open>30d\<close>, \<open>12h\<close>); on anything else it throws.
\<close>

definition is_digit :: "char \<Rightarrow> bool" where
  "is_digit c = (c \<in> set ''0123456789'')"

definition sample_timespan :: "string \<Rightarrow> bool" where
  "sample_timespan s =
     (case rev s of
        [] \<Rightarrow> False
      | c # r \<Rightarrow>
          if c \<in> set ''smhdwy'' then r \<noteq> [] \<and> list_all is_digit r
          else list_all is_digit s)"

definition sample_sign :: "payload \<Rightarrow> string \<Rightarrow> string \<Rightarrow> js_error + string" where
  "sample_sign p secret expiresIn =
     (if \<not> sample_timespan expiresIn then Inl (Error ''Error'' None)
      else if secret = ''your-secret-key'' then Inr (''live.access.'' @ userId p)
      else Inr (''live.refresh.'' @ userId p))"

definition sample_save :: "user \<Rightarrow> db \<Rightarrow> js_error + user \<times> db" where
  "sample_save u db =
     (if \<exists>v \<in> set db. user.email v = user.email u \<and> uid v \<noteq> uid u
        then Inl (Error ''MongoServerError'' (Some 11000))
      else Inr (u, filter (\<lambda>v. uid v \<noteq> uid u) db @ [u]))"

definition sample_env :: env where
  "sample_env =
     \<lparr>JWT_SECRET = None, JWT_REFRESH_SECRET = None, JWT_EXPIRES_IN = None,
      jwt_verify = sample_verify, jwt_sign = sample_sign,
      findById = (\<lambda>i db. Inr (find (\<lambda>v. uid v = i) db)),
      findOne_email = (\<lambda>e db. Inr (find (\<lambda>v. user.email v = e) db)),
      new_User = (\<lambda>e p n. \<lparr>uid = ''u2'', email = toLowerCase e, password = Some p, name = n,
                           preferences = JObj [(''theme'', JStr ''dark'')],
                           lastLoginAt = None\<rparr>),
      save = sample_save,
      bcrypt_compare = (\<lambda>candidate hash. Inr (hash = ''$2a$12$hash'' \<and> candidate = ''secret1'')),
      new_Date = 1700000000\<rparr>"

text \<open>
  A client that starts with a stored token pair, a session after login, and a network that
  answers as the sample server does: \<open>POST /api/auth/refresh\<close> by the refresh handler,
  every other request by the mandatory middleware in front of a handler that answers 200.
\<close>

definition boot_storage :: "string \<rightharpoonup> string" where
  "boot_storage = [''token'' \<mapsto> ''old.access.u1'', ''refreshToken'' \<mapsto> ''live.refresh.u1'']"

definition logged_in :: SessionState where
  "logged_in = \<lparr>user = JObj [(''id'', JStr ''u1'')], token = Some ''old.access.u1'',
                refreshToken = Some ''live.refresh.u1'', isAuthenticated = True,
                isLoading = False, error = None\<rparr>"

definition string_field :: "json option \<Rightarrow> string \<Rightarrow> string option" where
  "string_field d k =
     (case d of
        Some (JObj kvs) \<Rightarrow> (case map_of kvs k of Some (JStr v) \<Rightarrow> Some v | _ \<Rightarrow> None)
      | _ \<Rightarrow> None)"

definition sample_network :: "request_config \<Rightarrow> answer" where
  "sample_network cfg =
     (if url cfg = ''/api/auth/refresh'' then
        (case refresh sample_env (string_field (data cfg)) of
           (st, body) \<Rightarrow> Answer st (string_field (Some body) ''token''))
      else
        (case snd (authenticateToken sample_env sample_db (Authorization cfg) None) of
           [Send st body] \<Rightarrow> Answer st None
         | _ \<Rightarrow> Answer 200 None))"

definition sample_client_env :: client_env where
  "sample_client_env = \<lparr>API_BASE_URL = ''/api'', network = sample_network\<rparr>"

text \<open>A request for the profile, and a client that has sent nothing yet.\<close>

definition profile_request :: request_config where
  "profile_request = \<lparr>url = ''/api/user/profile'', data = None, Authorization = None, retry = False\<rparr>"

definition fresh_client :: "SessionState \<Rightarrow> client" where
  "fresh_client s = \<lparr>session = s, localStorage = boot_storage, calls = [], logouts_started = 0\<rparr>"

section \<open>Facts about the header and the error bodies\<close>

lemma split_sp_nonempty: "split_sp s \<noteq> []"
  by (induction s) (auto split: list.splits)

lemma split_sp_no_space: "CHR '' '' \<notin> set s \<Longrightarrow> split_sp s = [s]"
  by (induction s) auto

lemma split_sp_append:
  "CHR '' '' \<notin> set a \<Longrightarrow> split_sp (a @ CHR '' '' # b) = a # split_sp b"
  by (induction a) auto

lemma header_token_scheme:
  assumes "CHR '' '' \<notin> set scheme" and "CHR '' '' \<notin> set tok"
  shows "header_token (Some (scheme @ CHR '' '' # tok)) = Some tok"
  using assms by (simp add: header_token_def split_sp_append split_sp_no_space)

lemma header_token_Bearer:
  assumes "CHR '' '' \<notin> set tok"
  shows "header_token (Some (''Bearer '' @ tok)) = Some tok"
  using assms by (simp add: header_token_def split_sp_no_space)

lemma err_json_eq: "err_json m e = err_json m' e' \<longleftrightarrow> m = m' \<and> e = e'"
  by (auto simp: err_json_def)

lemma auth_catch_not_no_token:
  "auth_catch e \<noteq> [Send 401 (err_json ''Access token is required'' ''NO_TOKEN'')]"
  by (simp add: auth_catch_def err_json_eq)

section \<open>The mandatory middleware\<close>

text \<open>
  C3 (as the code has it). \<open>authenticateToken\<close> answers 401 \<open>NO_TOKEN\<close>, without calling
  \<open>next\<close>, exactly when the Authorization header is absent, empty, or has no non-empty
  second field after a space; in particular when it is absent. The first field, the scheme,
  is never inspected: a header with any other scheme word and the same token is treated
  as the \<open>Bearer\<close> header is.
\<close>

theorem authenticateToken_no_token:
  "(snd (authenticateToken env db authHeader req_user)
      = [Send 401 (err_json ''Access token is required'' ''NO_TOKEN'')]
    \<longleftrightarrow> \<not> truthy (header_token authHeader))
   \<and> authenticateToken env db None req_user
      = (req_user, [Send 401 (err_json ''Access token is required'' ''NO_TOKEN'')])
   \<and> (CHR '' '' \<notin> set scheme \<and> CHR '' '' \<notin> set tok \<longrightarrow>
        authenticateToken env db (Some (scheme @ '' '' @ tok)) req_user
          = authenticateToken env db (Some (''Bearer '' @ tok)) req_user)"
proof (intro conjI impI)
  show "snd (authenticateToken env db authHeader req_user)
      = [Send 401 (err_json ''Access token is required'' ''NO_TOKEN'')]
    \<longleftrightarrow> \<not> truthy (header_token authHeader)"
    by (auto simp: authenticateToken_def Let_def auth_catch_not_no_token err_json_eq
        split: sum.splits option.splits)
next
  show "authenticateToken env db None req_user
      = (req_user, [Send 401 (err_json ''Access token is required'' ''NO_TOKEN'')])"
    by (simp add: authenticateToken_def header_token_def truthy_def)
next
  assume "CHR '' '' \<notin> set scheme \<and> CHR '' '' \<notin> set tok"
  then have "header_token (Some (scheme @ '' '' @ tok)) = header_token (Some (''Bearer '' @ tok))"
    using header_token_scheme [of scheme tok] header_token_Bearer [of tok] by simp
  then show "authenticateToken env db (Some (scheme @ '' '' @ tok)) req_user
          = authenticateToken env db (Some (''Bearer '' @ tok)) req_user"
    by (simp add: authenticateToken_def)
qed

text \<open>
  The theorem at the header \<open>Bearer\<close> (no token field), and at the scheme \<open>Token\<close> with a
  live access token.
\<close>

theorem authenticateToken_no_token_witness:
  "snd (authenticateToken sample_env sample_db (Some ''Bearer'') None)
     = [Send 401 (err_json ''Access token is required'' ''NO_TOKEN'')]
   \<and> authenticateToken sample_env sample_db (Some ''Token live.access.u1'') None
       = authenticateToken sample_env sample_db (Some ''Bearer live.access.u1'') None"
proof -
  have h: "\<not> truthy (header_token (Some ''Bearer''))"
    by (simp add: header_token_def truthy_def)
  have k: "CHR '' '' \<notin> set ''Token'' \<and> CHR '' '' \<notin> set ''live.access.u1''"
    by simp
  show ?thesis
    using h k authenticateToken_no_token [where env = sample_env and db = sample_db
        and authHeader = "Some ''Bearer''" and req_user = None
        and scheme = "''Token''" and tok = "''live.access.u1''"]
    by simp
qed

text \<open>
  Against C3 as stated: a header with the scheme \<open>Basic\<close> is not answered with
  \<open>NO_TOKEN\<close>; its second field goes to verification, which rejects \<open>abc\<close> with 403
  \<open>INVALID_TOKEN\<close>, and accepts a live token under the scheme \<open>Token\<close>.
\<close>

theorem authenticateToken_scheme_counterexample:
  "authenticateToken sample_env sample_db (Some ''Basic abc'') None
     = (None, [Send 403 (err_json ''Invalid token'' ''INVALID_TOKEN'')])
   \<and> authenticateToken sample_env sample_db (Some ''Token live.access.u1'') None
     = (Some (alice\<lparr>password := None\<rparr>), [Next])"
  by (simp add: authenticateToken_def header_token_def truthy_def str_of_def sample_env_def
      sample_verify_def js_or_def auth_catch_def sample_db_def alice_def select_no_password_def)

lemma authenticateToken_Bearer:
  assumes "CHR '' '' \<notin> set tok" and "tok \<noteq> []"
  shows "authenticateToken env db (Some (''Bearer '' @ tok)) req_user =
     (case jwt_verify env tok (js_or (JWT_SECRET env) ''your-secret-key'') of
        Inl err \<Rightarrow> (req_user, auth_catch err)
      | Inr decoded \<Rightarrow>
          (case findById env (userId decoded) db of
             Inl err \<Rightarrow> (req_user, auth_catch err)
           | Inr None \<Rightarrow> (req_user, [Send 401 (err_json ''User not found'' ''INVALID_USER'')])
           | Inr (Some u) \<Rightarrow> (Some (select_no_password u), [Next])))"
proof -
  have "header_token (Some (''Bearer '' @ tok)) = Some tok"
    using assms(1) by (rule header_token_Bearer)
  then show ?thesis
    using assms(2) by (simp add: authenticateToken_def truthy_def str_of_def)
qed

text \<open>
  C4. A bearer token (non-empty, without a space) that jsonwebtoken rejects with a
  \<open>JsonWebTokenError\<close> (malformed, or not signed with the access secret) is answered
  with 403 \<open>INVALID_TOKEN\<close>; one it rejects with a \<open>TokenExpiredError\<close> is answered with 403
  \<open>TOKEN_EXPIRED\<close>. The two bodies differ, and in neither case is \<open>next\<close> called.
\<close>

theorem authenticateToken_invalid_or_expired:
  assumes "CHR '' '' \<notin> set tok" and "tok \<noteq> []"
    and "jwt_verify env tok (js_or (JWT_SECRET env) ''your-secret-key'') = Inl e"
  shows "(err_name e = ''JsonWebTokenError'' \<longrightarrow>
            authenticateToken env db (Some (''Bearer '' @ tok)) req_user
              = (req_user, [Send 403 (err_json ''Invalid token'' ''INVALID_TOKEN'')]))
       \<and> (err_name e = ''TokenExpiredError'' \<longrightarrow>
            authenticateToken env db (Some (''Bearer '' @ tok)) req_user
              = (req_user, [Send 403 (err_json ''Token expired'' ''TOKEN_EXPIRED'')]))
       \<and> err_json ''Invalid token'' ''INVALID_TOKEN'' \<noteq> err_json ''Token expired'' ''TOKEN_EXPIRED''
       \<and> Next \<notin> set (snd (authenticateToken env db (Some (''Bearer '' @ tok)) req_user))"
proof -
  have eq: "authenticateToken env db (Some (''Bearer '' @ tok)) req_user = (req_user, auth_catch e)"
    using authenticateToken_Bearer [OF assms(1,2), of env db req_user] assms(3) by simp
  show ?thesis
    unfolding eq by (simp add: auth_catch_def err_json_eq)
qed

text \<open>The theorem at a forged token and at an expired one.\<close>

theorem authenticateToken_invalid_or_expired_witness:
  "authenticateToken sample_env sample_db (Some ''Bearer forged.token'') None
     = (None, [Send 403 (err_json ''Invalid token'' ''INVALID_TOKEN'')])
   \<and> authenticateToken sample_env sample_db (Some ''Bearer old.access.u1'') None
     = (None, [Send 403 (err_json ''Token expired'' ''TOKEN_EXPIRED'')])"
proof -
  have a: "jwt_verify sample_env ''forged.token'' (js_or (JWT_SECRET sample_env) ''your-secret-key'')
             = Inl (Error ''JsonWebTokenError'' None)"
    by (simp add: sample_env_def sample_verify_def js_or_def)
  have b: "jwt_verify sample_env ''old.access.u1'' (js_or (JWT_SECRET sample_env) ''your-secret-key'')
             = Inl (Error ''TokenExpiredError'' None)"
    by (simp add: sample_env_def sample_verify_def js_or_def)
  show ?thesis
    using authenticateToken_invalid_or_expired [OF _ _ a, of sample_db None]
      authenticateToken_invalid_or_expired [OF _ _ b, of sample_db None]
    by simp
qed

text \<open>
  C8. For a bearer token that verifies against the access secret and whose \<open>userId\<close> the
  store resolves to a user, \<open>authenticateToken\<close> sets \<open>req.user\<close> to that user without its
  password hash, calls \<open>next\<close> once and sends nothing.
\<close>

theorem authenticateToken_forwards:
  assumes "CHR '' '' \<notin> set tok" and "tok \<noteq> []"
    and "jwt_verify env tok (js_or (JWT_SECRET env) ''your-secret-key'') = Inr decoded"
    and "findById env (userId decoded) db = Inr (Some u)"
  shows "authenticateToken env db (Some (''Bearer '' @ tok)) req_user
           = (Some (u\<lparr>password := None\<rparr>), [Next])"
  using authenticateToken_Bearer [OF assms(1,2), of env db req_user] assms(3,4)
  by (simp add: select_no_password_def)

text \<open>The theorem at the live access token of the stored user.\<close>

theorem authenticateToken_forwards_witness:
  "authenticateToken sample_env sample_db (Some ''Bearer live.access.u1'') None
     = (Some \<lparr>uid = ''u1'', email = ''a@b.com'', password = None, name = ''Alice'',
              preferences = JObj [(''theme'', JStr ''dark'')], lastLoginAt = None\<rparr>, [Next])"
proof -
  have a: "jwt_verify sample_env ''live.access.u1'' (js_or (JWT_SECRET sample_env) ''your-secret-key'')
             = Inr \<lparr>userId = ''u1''\<rparr>"
    by (simp add: sample_env_def sample_verify_def js_or_def)
  have b: "findById sample_env (userId \<lparr>userId = ''u1''\<rparr>) sample_db = Inr (Some alice)"
    by (simp add: sample_env_def sample_db_def alice_def)
  show ?thesis
    using authenticateToken_forwards [OF _ _ a b, of None]
    by (simp add: alice_def)
qed

section \<open>The optional middleware\<close>

text \<open>
  C9. Whatever the header, the token library and the store do, \<open>optionalAuth\<close> calls
  \<open>next\<close> once and sends no response; and whenever the mandatory middleware would not
  forward the request (no token, invalid or expired token, unknown user, store fault), a
  request that came without a user leaves without one.
\<close>

theorem optionalAuth_always_forwards:
  "snd (optionalAuth env db authHeader req_user) = [Next]
   \<and> (snd (authenticateToken env db authHeader None) \<noteq> [Next] \<longrightarrow>
        fst (optionalAuth env db authHeader None) = None)"
proof (cases "truthy (header_token authHeader)")
  case False
  then show ?thesis
    by (simp add: optionalAuth_def)
next
  case True
  show ?thesis
  proof (cases "jwt_verify env (str_of (header_token authHeader))
                  (js_or (JWT_SECRET env) ''your-secret-key'')")
    case (Inl e)
    with True show ?thesis
      by (simp add: optionalAuth_def)
  next
    case (Inr decoded)
    show ?thesis
    proof (cases "findById env (userId decoded) db")
      case (Inl e)
      with True Inr show ?thesis
        by (simp add: optionalAuth_def)
    next
      case found: (Inr r)
      show ?thesis
      proof (cases r)
        case None
        with True Inr found show ?thesis
          by (simp add: optionalAuth_def)
      next
        case (Some u)
        with True Inr found show ?thesis
          by (simp add: optionalAuth_def authenticateToken_def)
      qed
    qed
  qed
qed

text \<open>The theorem at an expired token, at a token of an unknown user, and without a header.\<close>

theorem optionalAuth_always_forwards_witness:
  "optionalAuth sample_env sample_db (Some ''Bearer old.access.u1'') None = (None, [Next])
   \<and> optionalAuth sample_env sample_db (Some ''Bearer live.access.u9'') None = (None, [Next])
   \<and> optionalAuth sample_env sample_db None None = (None, [Next])"
proof -
  have a: "snd (authenticateToken sample_env sample_db (Some ''Bearer old.access.u1'') None) \<noteq> [Next]"
    by (simp add: authenticateToken_def header_token_def truthy_def str_of_def sample_env_def
      sample_verify_def js_or_def auth_catch_def)
  have b: "snd (authenticateToken sample_env sample_db (Some ''Bearer live.access.u9'') None) \<noteq> [Next]"
    by (simp add: authenticateToken_def header_token_def truthy_def str_of_def sample_env_def
      sample_verify_def js_or_def auth_catch_def sample_db_def alice_def)
  have c: "snd (authenticateToken sample_env sample_db None None) \<noteq> [Next]"
    by (simp add: authenticateToken_def header_token_def truthy_def)
  show ?thesis
    using a b c
      optionalAuth_always_forwards [of sample_env sample_db "Some ''Bearer old.access.u1''" None]
      optionalAuth_always_forwards [of sample_env sample_db "Some ''Bearer live.access.u9''" None]
      optionalAuth_always_forwards [of sample_env sample_db None None]
    by (simp add: prod_eq_iff)
qed

section \<open>The endpoints\<close>

text \<open>
  C5. A login whose email resolves to no user and a login whose email resolves to a user
  but whose password does not match get the same response, 401 with the message
  \<open>Invalid email or password\<close> and the code \<open>INVALID_CREDENTIALS\<close>, and both leave the
  collection as it was.
\<close>

theorem login_failures_identical:
  assumes "truthy (body1 ''email'')" and "truthy (body1 ''password'')"
    and "findByEmail env (str_of (body1 ''email'')) db = Inr None"
    and "truthy (body2 ''email'')" and "truthy (body2 ''password'')"
    and "findByEmail env (str_of (body2 ''email'')) db = Inr (Some u)"
    and "comparePassword env u (str_of (body2 ''password'')) = Inr False"
  shows "login env db body1 = login env db body2
       \<and> login env db body1
           = ((401, err_json ''Invalid email or password'' ''INVALID_CREDENTIALS''), db)"
  using assms by (simp add: login_def)

text \<open>The theorem at an unknown email and at the stored user with a wrong password.\<close>

theorem login_failures_identical_witness:
  "login sample_env sample_db [''email'' \<mapsto> ''nobody@b.com'', ''password'' \<mapsto> ''secret1'']
     = login sample_env sample_db [''email'' \<mapsto> ''A@B.com'', ''password'' \<mapsto> ''wrong12'']
   \<and> login sample_env sample_db [''email'' \<mapsto> ''nobody@b.com'', ''password'' \<mapsto> ''secret1'']
     = ((401, err_json ''Invalid email or password'' ''INVALID_CREDENTIALS''), sample_db)"
proof -
  let ?b1 = "[''email'' \<mapsto> ''nobody@b.com'', ''password'' \<mapsto> ''secret1'']"
  let ?b2 = "[''email'' \<mapsto> ''A@B.com'', ''password'' \<mapsto> ''wrong12'']"
  have t: "truthy (?b1 ''email'')" "truthy (?b1 ''password'')"
          "truthy (?b2 ''email'')" "truthy (?b2 ''password'')"
    by (simp_all add: truthy_def)
  have a: "findByEmail sample_env (str_of (?b1 ''email'')) sample_db = Inr None"
    by (simp add: findByEmail_def sample_env_def sample_db_def alice_def str_of_def
        toLowerCase_def lower_char_def)
  have b: "findByEmail sample_env (str_of (?b2 ''email'')) sample_db = Inr (Some alice)"
    by (simp add: findByEmail_def sample_env_def sample_db_def alice_def str_of_def
        toLowerCase_def lower_char_def)
  have c: "comparePassword sample_env alice (str_of (?b2 ''password'')) = Inr False"
    by (simp add: comparePassword_def sample_env_def alice_def str_of_def)
  show ?thesis
    by (rule login_failures_identical [OF t(1) t(2) a t(3) t(4) b c])
qed

text \<open>
  C6 (as the code has it). \<open>POST /refresh\<close>: without a refresh token, 401
  \<open>NO_REFRESH_TOKEN\<close>; when \<open>jwt.verify\<close> against the refresh secret throws, whatever the
  error, and also when \<open>jwt.sign\<close> of the new token throws, 403 \<open>INVALID_REFRESH_TOKEN\<close>;
  otherwise 200 with the token \<open>jwt.sign\<close> returned for the payload \<open>{ userId }\<close> of the
  refresh token, the access secret and the access lifetime, in a body without a
  \<open>refreshToken\<close> field.
\<close>

theorem refresh_outcomes:
  "(\<not> truthy (body ''refreshToken'') \<longrightarrow>
      refresh env body = (401, err_json ''Refresh token is required'' ''NO_REFRESH_TOKEN''))
   \<and> (truthy (body ''refreshToken'') \<and>
        jwt_verify env (str_of (body ''refreshToken''))
          (js_or (JWT_REFRESH_SECRET env) ''your-refresh-secret-key'') = Inl e \<longrightarrow>
      refresh env body = (403, err_json ''Invalid refresh token'' ''INVALID_REFRESH_TOKEN''))
   \<and> (truthy (body ''refreshToken'') \<and>
        jwt_verify env (str_of (body ''refreshToken''))
          (js_or (JWT_REFRESH_SECRET env) ''your-refresh-secret-key'') = Inr decoded \<and>
        jwt_sign env \<lparr>userId = userId decoded\<rparr> (js_or (JWT_SECRET env) ''your-secret-key'')
          (js_or (JWT_EXPIRES_IN env) ''7d'') = Inl e' \<longrightarrow>
      refresh env body = (403, err_json ''Invalid refresh token'' ''INVALID_REFRESH_TOKEN''))
   \<and> (truthy (body ''refreshToken'') \<and>
        jwt_verify env (str_of (body ''refreshToken''))
          (js_or (JWT_REFRESH_SECRET env) ''your-refresh-secret-key'') = Inr decoded \<and>
        jwt_sign env \<lparr>userId = userId decoded\<rparr> (js_or (JWT_SECRET env) ''your-secret-key'')
          (js_or (JWT_EXPIRES_IN env) ''7d'') = Inr newToken \<longrightarrow>
      refresh env body = (200, JObj [(''token'', JStr newToken)])
      \<and> field (snd (refresh env body)) ''refreshToken'' = None)"
proof (intro conjI impI)
  assume "\<not> truthy (body ''refreshToken'')"
  then show "refresh env body = (401, err_json ''Refresh token is required'' ''NO_REFRESH_TOKEN'')"
    by (simp add: refresh_def)
next
  assume "truthy (body ''refreshToken'') \<and>
        jwt_verify env (str_of (body ''refreshToken''))
          (js_or (JWT_REFRESH_SECRET env) ''your-refresh-secret-key'') = Inl e"
  then show "refresh env body = (403, err_json ''Invalid refresh token'' ''INVALID_REFRESH_TOKEN'')"
    by (simp add: refresh_def)
next
  assume "truthy (body ''refreshToken'') \<and>
        jwt_verify env (str_of (body ''refreshToken''))
          (js_or (JWT_REFRESH_SECRET env) ''your-refresh-secret-key'') = Inr decoded \<and>
        jwt_sign env \<lparr>userId = userId decoded\<rparr> (js_or (JWT_SECRET env) ''your-secret-key'')
          (js_or (JWT_EXPIRES_IN env) ''7d'') = Inl e'"
  then show "refresh env body = (403, err_json ''Invalid refresh token'' ''INVALID_REFRESH_TOKEN'')"
    by (simp add: refresh_def generateToken_def)
next
  assume "truthy (body ''refreshToken'') \<and>
        jwt_verify env (str_of (body ''refreshToken''))
          (js_or (JWT_REFRESH_SECRET env) ''your-refresh-secret-key'') = Inr decoded \<and>
        jwt_sign env \<lparr>userId = userId decoded\<rparr> (js_or (JWT_SECRET env) ''your-secret-key'')
          (js_or (JWT_EXPIRES_IN env) ''7d'') = Inr newToken"
  then show sent: "refresh env body = (200, JObj [(''token'', JStr newToken)])"
    by (simp add: refresh_def generateToken_def)
  show "field (snd (refresh env body)) ''refreshToken'' = None"
    unfolding sent by (simp add: field_def)
qed

text \<open>
  The theorem without a token, at an expired refresh token, at an access token submitted
  as a refresh token, at a live refresh token on a server whose \<open>JWT_EXPIRES_IN\<close> is no time
  span, and at a live refresh token, whose new access token verifies to the same
  \<open>userId\<close>.
\<close>

theorem refresh_outcomes_witness:
  "refresh sample_env Map.empty = (401, err_json ''Refresh token is required'' ''NO_REFRESH_TOKEN'')
   \<and> refresh sample_env [''refreshToken'' \<mapsto> ''old.refresh.u1'']
       = (403, err_json ''Invalid refresh token'' ''INVALID_REFRESH_TOKEN'')
   \<and> refresh sample_env [''refreshToken'' \<mapsto> ''live.access.u1'']
       = (403, err_json ''Invalid refresh token'' ''INVALID_REFRESH_TOKEN'')
   \<and> refresh (sample_env\<lparr>JWT_EXPIRES_IN := Some ''a week''\<rparr>)
         [''refreshToken'' \<mapsto> ''live.refresh.u1'']
       = (403, err_json ''Invalid refresh token'' ''INVALID_REFRESH_TOKEN'')
   \<and> refresh sample_env [''refreshToken'' \<mapsto> ''live.refresh.u1'']
       = (200, JObj [(''token'', JStr ''live.access.u1'')])
   \<and> jwt_verify sample_env ''live.access.u1'' ''your-secret-key'' = Inr \<lparr>userId = ''u1''\<rparr>"
proof -
  note defs = truthy_def str_of_def sample_env_def sample_verify_def js_or_def
    sample_sign_def sample_timespan_def is_digit_def
  have 1: "refresh sample_env Map.empty
             = (401, err_json ''Refresh token is required'' ''NO_REFRESH_TOKEN'')"
    using refresh_outcomes [where env = sample_env and body = Map.empty]
    by (simp add: truthy_def)
  have 2: "refresh sample_env [''refreshToken'' \<mapsto> ''old.refresh.u1'']
             = (403, err_json ''Invalid refresh token'' ''INVALID_REFRESH_TOKEN'')"
    using refresh_outcomes [where env = sample_env
        and body = "[''refreshToken'' \<mapsto> ''old.refresh.u1'']"
        and e = "Error ''TokenExpiredError'' None"]
    by (simp add: defs)
  have 3: "refresh sample_env [''refreshToken'' \<mapsto> ''live.access.u1'']
             = (403, err_json ''Invalid refresh token'' ''INVALID_REFRESH_TOKEN'')"
    using refresh_outcomes [where env = sample_env
        and body = "[''refreshToken'' \<mapsto> ''live.access.u1'']"
        and e = "Error ''JsonWebTokenError'' None"]
    by (simp add: defs)
  have 4: "refresh (sample_env\<lparr>JWT_EXPIRES_IN := Some ''a week''\<rparr>)
             [''refreshToken'' \<mapsto> ''live.refresh.u1'']
             = (403, err_json ''Invalid refresh token'' ''INVALID_REFRESH_TOKEN'')"
    using refresh_outcomes [where env = "sample_env\<lparr>JWT_EXPIRES_IN := Some ''a week''\<rparr>"
        and body = "[''refreshToken'' \<mapsto> ''live.refresh.u1'']"
        and decoded = "\<lparr>userId = ''u1''\<rparr>" and e' = "Error ''Error'' None"]
    by (simp add: defs)
  have 5: "refresh sample_env [''refreshToken'' \<mapsto> ''live.refresh.u1'']
             = (200, JObj [(''token'', JStr ''live.access.u1'')])"
    using refresh_outcomes [where env = sample_env
        and body = "[''refreshToken'' \<mapsto> ''live.refresh.u1'']"
        and decoded = "\<lparr>userId = ''u1''\<rparr>" and newToken = "''live.access.u1''"]
    by (simp add: defs)
  have 6: "jwt_verify sample_env ''live.access.u1'' ''your-secret-key'' = Inr \<lparr>userId = ''u1''\<rparr>"
    by (simp add: sample_env_def sample_verify_def)
  show ?thesis
    by (intro conjI) (rule 1 2 3 4 5 6)+
qed

text \<open>
  Against C6 as stated: on a server started with \<open>JWT_EXPIRES_IN=soon\<close>, a refresh token
  that is present and verifies against the refresh secret is answered 403
  \<open>INVALID_REFRESH_TOKEN\<close>, not 200: \<open>jwt.sign\<close> throws inside the handler's \<open>try\<close>.
\<close>

theorem refresh_sign_throws_counterexample:
  "truthy ([''refreshToken'' \<mapsto> ''live.refresh.u1''] ''refreshToken'')
   \<and> jwt_verify (sample_env\<lparr>JWT_EXPIRES_IN := Some ''soon''\<rparr>) ''live.refresh.u1''
        (js_or (JWT_REFRESH_SECRET (sample_env\<lparr>JWT_EXPIRES_IN := Some ''soon''\<rparr>))
           ''your-refresh-secret-key'')
       = Inr \<lparr>userId = ''u1''\<rparr>
   \<and> refresh (sample_env\<lparr>JWT_EXPIRES_IN := Some ''soon''\<rparr>)
        [''refreshToken'' \<mapsto> ''live.refresh.u1'']
       = (403, err_json ''Invalid refresh token'' ''INVALID_REFRESH_TOKEN'')"
  by (simp add: refresh_def generateToken_def truthy_def str_of_def sample_env_def
      sample_verify_def js_or_def sample_sign_def sample_timespan_def is_digit_def)




text \<open>A request that passes the three checks on its fields goes on to the store.\<close>

lemma register_validated:
  assumes "truthy (body ''email'')" and "truthy (body ''password'')"
    and "body ''password'' = body ''confirmPassword''"
    and "6 \<le> length (str_of (body ''password''))"
  shows "register env db body =
     (case findByEmail env (str_of (body ''email'')) db of
        Inl err \<Rightarrow> (register_catch err, db)
      | Inr (Some existingUser) \<Rightarrow>
          ((400, err_json ''User with this email already exists'' ''USER_EXISTS''), db)
      | Inr None \<Rightarrow>
          (case save env (new_User env (str_of (body ''email'')) (str_of (body ''password''))
                            (js_or (body ''name'') [])) db of
             Inl err \<Rightarrow> (register_catch err, db)
           | Inr (u, db1) \<Rightarrow>
               (case generateToken env (uid u) of
                  Inl err \<Rightarrow> (register_catch err, db1)
                | Inr tok \<Rightarrow>
                    (case generateRefreshToken env (uid u) of
                       Inl err \<Rightarrow> (register_catch err, db1)
                     | Inr rtok \<Rightarrow>
                         (case save env (u\<lparr>lastLoginAt := Some (new_Date env)\<rparr>) db1 of
                            Inl err \<Rightarrow> (register_catch err, db1)
                          | Inr (u', db2) \<Rightarrow>
                              ((201, JObj [(''message'', JStr ''User registered successfully''),
                                           (''user'', JObj [(''id'', JStr (uid u')),
                                                            (''email'', JStr (user.email u')),
                                                            (''name'', JStr (user.name u')),
                                                            (''preferences'', preferences u')]),
                                           (''token'', JStr tok),
                                           (''refreshToken'', JStr rtok)]),
                               db2))))))"
  using assms(1,2,4) assms(3) [symmetric]
  by (simp add: register_def Let_def split: sum.splits option.splits)

text \<open>
  C7. \<open>POST /register\<close> checks in this order, each failure answered with 400 and the
  collection left as it was: email or password missing, \<open>MISSING_FIELDS\<close>; password and
  confirmation different, \<open>PASSWORD_MISMATCH\<close>; password shorter than 6,
  \<open>PASSWORD_TOO_SHORT\<close>; email already stored, \<open>USER_EXISTS\<close>; and when the save that
  creates the user throws with code 11000, \<open>DUPLICATE_EMAIL\<close>.
\<close>

theorem register_validation_order:
  "(\<not> truthy (body ''email'') \<or> \<not> truthy (body ''password'') \<longrightarrow>
      register env db body
        = ((400, err_json ''Email and password are required'' ''MISSING_FIELDS''), db))
   \<and> (truthy (body ''email'') \<and> truthy (body ''password'') \<and>
        body ''password'' \<noteq> body ''confirmPassword'' \<longrightarrow>
      register env db body
        = ((400, err_json ''Passwords do not match'' ''PASSWORD_MISMATCH''), db))
   \<and> (truthy (body ''email'') \<and> truthy (body ''password'') \<and>
        body ''password'' = body ''confirmPassword'' \<and>
        length (str_of (body ''password'')) < 6 \<longrightarrow>
      register env db body
        = ((400, err_json ''Password must be at least 6 characters long''
              ''PASSWORD_TOO_SHORT''), db))
   \<and> (truthy (body ''email'') \<and> truthy (body ''password'') \<and>
        body ''password'' = body ''confirmPassword'' \<and>
        6 \<le> length (str_of (body ''password'')) \<and>
        findByEmail env (str_of (body ''email'')) db = Inr (Some existingUser) \<longrightarrow>
      register env db body
        = ((400, err_json ''User with this email already exists'' ''USER_EXISTS''), db))
   \<and> (truthy (body ''email'') \<and> truthy (body ''password'') \<and>
        body ''password'' = body ''confirmPassword'' \<and>
        6 \<le> length (str_of (body ''password'')) \<and>
        findByEmail env (str_of (body ''email'')) db = Inr None \<and>
        save env (new_User env (str_of (body ''email'')) (str_of (body ''password''))
                    (js_or (body ''name'') [])) db = Inl e \<and>
        err_code e = Some 11000 \<longrightarrow>
      register env db body
        = ((400, err_json ''Email already exists'' ''DUPLICATE_EMAIL''), db))"
proof (intro conjI impI)
  assume "\<not> truthy (body ''email'') \<or> \<not> truthy (body ''password'')"
  then show "register env db body
        = ((400, err_json ''Email and password are required'' ''MISSING_FIELDS''), db)"
    by (auto simp: register_def Let_def)
next
  assume "truthy (body ''email'') \<and> truthy (body ''password'') \<and>
        body ''password'' \<noteq> body ''confirmPassword''"
  then show "register env db body
        = ((400, err_json ''Passwords do not match'' ''PASSWORD_MISMATCH''), db)"
    by (simp add: register_def Let_def)
next
  assume "truthy (body ''email'') \<and> truthy (body ''password'') \<and>
        body ''password'' = body ''confirmPassword'' \<and>
        length (str_of (body ''password'')) < 6"
  then have "truthy (body ''email'')" and "truthy (body ''password'')"
    and "body ''confirmPassword'' = body ''password''"
    and "length (str_of (body ''password'')) < 6"
    by auto
  then show "register env db body
        = ((400, err_json ''Password must be at least 6 characters long''
              ''PASSWORD_TOO_SHORT''), db)"
    by (simp add: register_def Let_def)
next
  assume "truthy (body ''email'') \<and> truthy (body ''password'') \<and>
        body ''password'' = body ''confirmPassword'' \<and>
        6 \<le> length (str_of (body ''password'')) \<and>
        findByEmail env (str_of (body ''email'')) db = Inr (Some existingUser)"
  then have valid: "truthy (body ''email'')" "truthy (body ''password'')"
      "body ''password'' = body ''confirmPassword''"
      "6 \<le> length (str_of (body ''password''))"
    and found: "findByEmail env (str_of (body ''email'')) db = Inr (Some existingUser)"
    by auto
  show "register env db body
        = ((400, err_json ''User with this email already exists'' ''USER_EXISTS''), db)"
    unfolding register_validated [OF valid] by (simp add: found)
next
  assume "truthy (body ''email'') \<and> truthy (body ''password'') \<and>
        body ''password'' = body ''confirmPassword'' \<and>
        6 \<le> length (str_of (body ''password'')) \<and>
        findByEmail env (str_of (body ''email'')) db = Inr None \<and>
        save env (new_User env (str_of (body ''email'')) (str_of (body ''password''))
                    (js_or (body ''name'') [])) db = Inl e \<and>
        err_code e = Some 11000"
  then have valid: "truthy (body ''email'')" "truthy (body ''password'')"
      "body ''password'' = body ''confirmPassword''"
      "6 \<le> length (str_of (body ''password''))"
    and free: "findByEmail env (str_of (body ''email'')) db = Inr None"
    and fault: "save env (new_User env (str_of (body ''email'')) (str_of (body ''password''))
                    (js_or (body ''name'') [])) db = Inl e"
    and dup: "err_code e = Some 11000"
    by auto
  show "register env db body
        = ((400, err_json ''Email already exists'' ''DUPLICATE_EMAIL''), db)"
    unfolding register_validated [OF valid] by (simp add: free fault dup register_catch_def)
qed

text \<open>The theorem at one request per check.\<close>

theorem register_validation_order_witness:
  "register sample_env sample_db [''password'' \<mapsto> ''secret1'', ''confirmPassword'' \<mapsto> ''other'']
     = ((400, err_json ''Email and password are required'' ''MISSING_FIELDS''), sample_db)
   \<and> register sample_env sample_db
        [''email'' \<mapsto> ''a@b.com'', ''password'' \<mapsto> ''abc'', ''confirmPassword'' \<mapsto> ''abd'']
     = ((400, err_json ''Passwords do not match'' ''PASSWORD_MISMATCH''), sample_db)
   \<and> register sample_env sample_db
        [''email'' \<mapsto> ''a@b.com'', ''password'' \<mapsto> ''abc'', ''confirmPassword'' \<mapsto> ''abc'']
     = ((400, err_json ''Password must be at least 6 characters long''
              ''PASSWORD_TOO_SHORT''), sample_db)
   \<and> register sample_env sample_db
        [''email'' \<mapsto> ''A@b.com'', ''password'' \<mapsto> ''secret1'', ''confirmPassword'' \<mapsto> ''secret1'']
     = ((400, err_json ''User with this email already exists'' ''USER_EXISTS''), sample_db)
   \<and> register (sample_env\<lparr>save := \<lambda>u d. Inl (Error ''MongoServerError'' (Some 11000))\<rparr>)
        sample_db
        [''email'' \<mapsto> ''c@d.com'', ''password'' \<mapsto> ''secret1'', ''confirmPassword'' \<mapsto> ''secret1'']
     = ((400, err_json ''Email already exists'' ''DUPLICATE_EMAIL''), sample_db)"
proof -
  note defs = truthy_def str_of_def findByEmail_def sample_env_def sample_db_def alice_def
    toLowerCase_def lower_char_def js_or_def
  have 1: "register sample_env sample_db [''password'' \<mapsto> ''secret1'', ''confirmPassword'' \<mapsto> ''other'']
     = ((400, err_json ''Email and password are required'' ''MISSING_FIELDS''), sample_db)"
    using register_validation_order [where env = sample_env and db = sample_db
        and body = "[''password'' \<mapsto> ''secret1'', ''confirmPassword'' \<mapsto> ''other'']"]
    by (simp add: truthy_def)
  have 2: "register sample_env sample_db
        [''email'' \<mapsto> ''a@b.com'', ''password'' \<mapsto> ''abc'', ''confirmPassword'' \<mapsto> ''abd'']
     = ((400, err_json ''Passwords do not match'' ''PASSWORD_MISMATCH''), sample_db)"
    using register_validation_order [where env = sample_env and db = sample_db
        and body = "[''email'' \<mapsto> ''a@b.com'', ''password'' \<mapsto> ''abc'', ''confirmPassword'' \<mapsto> ''abd'']"]
    by (simp add: truthy_def)
  have 3: "register sample_env sample_db
        [''email'' \<mapsto> ''a@b.com'', ''password'' \<mapsto> ''abc'', ''confirmPassword'' \<mapsto> ''abc'']
     = ((400, err_json ''Password must be at least 6 characters long''
              ''PASSWORD_TOO_SHORT''), sample_db)"
    using register_validation_order [where env = sample_env and db = sample_db
        and body = "[''email'' \<mapsto> ''a@b.com'', ''password'' \<mapsto> ''abc'', ''confirmPassword'' \<mapsto> ''abc'']"]
    by (simp add: truthy_def str_of_def)
  have 4: "register sample_env sample_db
        [''email'' \<mapsto> ''A@b.com'', ''password'' \<mapsto> ''secret1'', ''confirmPassword'' \<mapsto> ''secret1'']
     = ((400, err_json ''User with this email already exists'' ''USER_EXISTS''), sample_db)"
    using register_validation_order [where env = sample_env and db = sample_db
        and existingUser = alice
        and body = "[''email'' \<mapsto> ''A@b.com'', ''password'' \<mapsto> ''secret1'', ''confirmPassword'' \<mapsto> ''secret1'']"]
    by (simp add: defs)
  have 5: "register (sample_env\<lparr>save := \<lambda>u d. Inl (Error ''MongoServerError'' (Some 11000))\<rparr>)
        sample_db
        [''email'' \<mapsto> ''c@d.com'', ''password'' \<mapsto> ''secret1'', ''confirmPassword'' \<mapsto> ''secret1'']
     = ((400, err_json ''Email already exists'' ''DUPLICATE_EMAIL''), sample_db)"
    using register_validation_order [where db = sample_db
        and env = "sample_env\<lparr>save := \<lambda>u d. Inl (Error ''MongoServerError'' (Some 11000))\<rparr>"
        and e = "Error ''MongoServerError'' (Some 11000)"
        and body = "[''email'' \<mapsto> ''c@d.com'', ''password'' \<mapsto> ''secret1'', ''confirmPassword'' \<mapsto> ''secret1'']"]
    by (simp add: defs)
  show ?thesis
    by (intro conjI) (rule 1 2 3 4 5)+
qed

section \<open>The client session\<close>

text \<open>
  The request interceptor writes the token of the state it closed over, whatever header
  the request came with, and leaves the retry mark alone.
\<close>

lemma requestInterceptor_token:
  "truthy (token state) \<Longrightarrow>
     Authorization (requestInterceptor state cfg) = Some (''Bearer '' @ js_string (token state))"
  by (simp add: requestInterceptor_def)

lemma requestInterceptor_retry:
  "retry (requestInterceptor state cfg) = retry cfg"
  by (simp add: requestInterceptor_def)

text \<open>A rejection of a request already marked retried is passed on, and nothing is called.\<close>

lemma responseInterceptor_marked:
  "retry (config err) \<Longrightarrow> responseInterceptor n cenv state err w = Some (Inl err, w)"
  by simp

text \<open>
  When the refresh POST, as the request interceptor sends it, is answered 403, the call
  never settles: its rejection is a 403 on a request without the mark, and the handler
  posts the same refresh again. So does every unmarked request answered 403.
\<close>

lemma refresh_403_never_settles:
  assumes "network cenv
             (requestInterceptor state
                (post_config (API_BASE_URL cenv @ ''/auth/refresh'')
                   (Some (JObj [(''refreshToken'', json_of (refreshToken state))]))))
           = Answer 403 d"
  shows "axios n cenv state
           (post_config (API_BASE_URL cenv @ ''/auth/refresh'')
              (Some (JObj [(''refreshToken'', json_of (refreshToken state))]))) w = None"
proof (induction n arbitrary: w)
  case 0
  show ?case by simp
next
  case (Suc n)
  show ?case
    using assms Suc.IH
    by (simp add: Let_def settle_def post_config_def requestInterceptor_retry)
qed

lemma rejected_403_never_settles:
  assumes "network cenv
             (requestInterceptor state
                (post_config (API_BASE_URL cenv @ ''/auth/refresh'')
                   (Some (JObj [(''refreshToken'', json_of (refreshToken state))]))))
           = Answer 403 d"
    and "network cenv (requestInterceptor state cfg) = Answer 403 d'"
    and "\<not> retry cfg"
  shows "axios n cenv state cfg w = None"
proof (cases n)
  case 0
  then show ?thesis by simp
next
  case (Suc m)
  then show ?thesis
    using assms(2,3) refresh_403_never_settles [OF assms(1)]
    by (simp add: Let_def settle_def requestInterceptor_retry)
qed

lemma sample_refresh_live:
  "sample_network (requestInterceptor logged_in
      (post_config ''/api/auth/refresh''
         (Some (JObj [(''refreshToken'', JStr ''live.refresh.u1'')]))))
   = Answer 200 (Some ''live.access.u1'')"
  by (simp add: sample_network_def requestInterceptor_def post_config_def logged_in_def
      truthy_def js_string_def string_field_def refresh_def generateToken_def str_of_def
      sample_env_def sample_verify_def sample_sign_def sample_timespan_def is_digit_def js_or_def
      field_def)

lemma sample_protected:
  "sample_network \<lparr>url = ''/api/user/profile'', data = None,
                   Authorization = Some ''Bearer old.access.u1'', retry = r\<rparr> = Answer 403 None"
  by (simp add: sample_network_def authenticateToken_def header_token_def truthy_def str_of_def
      sample_env_def sample_verify_def js_or_def auth_catch_def)

text \<open>A \<open>logout()\<close> that settles has made the \<open>LOGOUT\<close> transition and cleared the stored tokens.\<close>

lemma logout_settled:
  assumes "logout n cenv state w = Some w'"
  shows "\<not> isAuthenticated (session w') \<and> token (session w') = None
         \<and> localStorage w' ''token'' = None \<and> localStorage w' ''refreshToken'' = None"
  using assms
  by (auto simp: logout_def dispatch_def split: if_splits option.splits)

lemma authReducer_invariant:
  "session_invariant s \<Longrightarrow> complete_payload a \<Longrightarrow> session_invariant (authReducer s a)"
  by (cases a) (simp_all add: session_invariant_def spread_merge_def)

lemma run_actions_invariant:
  "session_invariant s \<Longrightarrow> \<forall>a \<in> set acts. complete_payload a \<Longrightarrow>
     session_invariant (run_actions s acts)"
  unfolding run_actions_def
  by (induction acts arbitrary: s) (simp_all add: authReducer_invariant)

text \<open>
  C2 (as the code has it). In every state reached from the initial state by dispatching
  actions whose \<open>AUTH_SUCCESS\<close> payloads carry a user and both tokens, \<open>isAuthenticated\<close>
  implies that the user and both tokens are non-null.
\<close>

theorem session_invariant_reachable:
  assumes "\<forall>a \<in> set acts. complete_payload a"
  shows "session_invariant (run_actions (initialState storage) acts)"
proof -
  have "session_invariant (initialState storage)"
    by (simp add: session_invariant_def initialState_def)
  then show ?thesis
    using assms by (rule run_actions_invariant)
qed

text \<open>The theorem at a login followed by a profile update.\<close>

theorem session_invariant_reachable_witness:
  "isAuthenticated (run_actions (initialState Map.empty)
      [AUTH_START, AUTH_SUCCESS (JObj [(''id'', JStr ''u1'')]) (Some ''t'') (Some ''r''),
       UPDATE_USER (JObj [(''name'', JStr ''Al'')]), CLEAR_ERROR])
   \<and> session_invariant (run_actions (initialState Map.empty)
      [AUTH_START, AUTH_SUCCESS (JObj [(''id'', JStr ''u1'')]) (Some ''t'') (Some ''r''),
       UPDATE_USER (JObj [(''name'', JStr ''Al'')]), CLEAR_ERROR])"
proof -
  let ?acts = "[AUTH_START, AUTH_SUCCESS (JObj [(''id'', JStr ''u1'')]) (Some ''t'') (Some ''r''),
       UPDATE_USER (JObj [(''name'', JStr ''Al'')]), CLEAR_ERROR]"
  have h: "\<forall>a \<in> set ?acts. complete_payload a"
    by simp
  have "isAuthenticated (run_actions (initialState Map.empty) ?acts)"
    by (simp add: run_actions_def initialState_def)
  then show ?thesis
    using session_invariant_reachable [OF h, of Map.empty] by simp
qed

text \<open>
  Against C2 as stated: a client that starts with a stored token pair has no user yet;
  when its first request is answered 403 and the refresh succeeds, the interceptor
  dispatches \<open>AUTH_SUCCESS\<close> with the user of the state it closed over, and the state
  reached is authenticated with a null user.
\<close>

theorem session_invariant_counterexample:
  "map_option (\<lambda>r. session (snd r))
     (responseInterceptor (Suc 0) sample_client_env (initialState boot_storage)
        \<lparr>config = \<lparr>url = ''/api/auth/me'', data = None,
                    Authorization = Some ''Bearer old.access.u1'', retry = False\<rparr>,
         response_status = Some 403\<rparr>
        (fresh_client (initialState boot_storage)))
    = Some (run_actions (initialState boot_storage)
        [AUTH_SUCCESS JNull (Some ''live.access.u1'') (Some ''live.refresh.u1'')])
  \<and> isAuthenticated (run_actions (initialState boot_storage)
        [AUTH_SUCCESS JNull (Some ''live.access.u1'') (Some ''live.refresh.u1'')])
  \<and> user (run_actions (initialState boot_storage)
        [AUTH_SUCCESS JNull (Some ''live.access.u1'') (Some ''live.refresh.u1'')]) = JNull
  \<and> \<not> session_invariant (run_actions (initialState boot_storage)
        [AUTH_SUCCESS JNull (Some ''live.access.u1'') (Some ''live.refresh.u1'')])"
proof -
  have refresh_ok:
    "sample_network (requestInterceptor (initialState boot_storage)
        (post_config ''/api/auth/refresh''
           (Some (JObj [(''refreshToken'', JStr ''live.refresh.u1'')]))))
     = Answer 200 (Some ''live.access.u1'')"
    by (simp add: sample_network_def requestInterceptor_def post_config_def initialState_def
        boot_storage_def truthy_def js_string_def string_field_def refresh_def generateToken_def
        str_of_def sample_env_def sample_verify_def sample_sign_def sample_timespan_def
        is_digit_def js_or_def)
  have retry_403:
    "sample_network \<lparr>url = ''/api/auth/me'', data = None,
        Authorization = Some ''Bearer old.access.u1'', retry = True\<rparr> = Answer 403 None"
    by (simp add: sample_network_def authenticateToken_def header_token_def truthy_def str_of_def
        sample_env_def sample_verify_def js_or_def auth_catch_def)
  have stored: "refreshToken (initialState boot_storage) = Some ''live.refresh.u1''"
      "token (initialState boot_storage) = Some ''old.access.u1''"
      "user (initialState boot_storage) = JNull"
    by (simp_all add: initialState_def boot_storage_def)
  show ?thesis
    using refresh_ok retry_403
    by (simp add: stored sample_client_env_def json_of_def settle_def Let_def dispatch_def
        fresh_client_def run_actions_def session_invariant_def requestInterceptor_def truthy_def
        js_string_def)
qed

lemma sample_refresh_expired:
  "sample_network (requestInterceptor (logged_in\<lparr>refreshToken := Some ''old.refresh.u1''\<rparr>)
      (post_config ''/api/auth/refresh''
         (Some (JObj [(''refreshToken'', JStr ''old.refresh.u1'')]))))
   = Answer 403 None"
  by (simp add: sample_network_def requestInterceptor_def post_config_def logged_in_def
      truthy_def js_string_def string_field_def refresh_def str_of_def
      sample_env_def sample_verify_def js_or_def err_json_def)

text \<open>
  C1, on two runs against the sample server where the code departs from it. A logged-in
  client whose access token has expired asks for the profile. The 403 is handled, one
  refresh is posted and succeeds, the new token is stored and dispatched, and the request
  is retried once, marked; but the retry passes the request interceptor, which writes the
  old token of the state it closed over, so the retry goes out with the old token, is
  answered 403 again and is rejected, where the server would have answered the same
  request with the new token 200. With an expired refresh token, the refresh POST is
  answered 403 and handled as any unmarked 403: refresh is posted again and again, and the
  call settles for no bound, so there is neither a rejection nor a logout.
\<close>

theorem axios_retry_stale_and_refresh_loop:
  "axios (Suc (Suc n)) sample_client_env logged_in profile_request (fresh_client logged_in)
     = Some (Inl \<lparr>config = \<lparr>url = ''/api/user/profile'', data = None,
                              Authorization = Some ''Bearer old.access.u1'', retry = True\<rparr>,
                  response_status = Some 403\<rparr>,
             \<lparr>session = logged_in\<lparr>token := Some ''live.access.u1''\<rparr>,
              localStorage = boot_storage(''token'' \<mapsto> ''live.access.u1''),
              calls = [\<lparr>url = ''/api/user/profile'', data = None,
                        Authorization = Some ''Bearer old.access.u1'', retry = False\<rparr>,
                       \<lparr>url = ''/api/auth/refresh'',
                        data = Some (JObj [(''refreshToken'', JStr ''live.refresh.u1'')]),
                        Authorization = Some ''Bearer old.access.u1'', retry = False\<rparr>,
                       \<lparr>url = ''/api/user/profile'', data = None,
                        Authorization = Some ''Bearer old.access.u1'', retry = True\<rparr>],
              logouts_started = 0\<rparr>)
   \<and> network sample_client_env
         \<lparr>url = ''/api/user/profile'', data = None,
          Authorization = Some ''Bearer live.access.u1'', retry = True\<rparr>
     = Answer 200 None
   \<and> axios n sample_client_env (logged_in\<lparr>refreshToken := Some ''old.refresh.u1''\<rparr>)
         profile_request (fresh_client (logged_in\<lparr>refreshToken := Some ''old.refresh.u1''\<rparr>))
     = None"
proof (intro conjI)
  have first_403: "sample_network \<lparr>url = ''/api/user/profile'', data = None,
                   Authorization = Some ''Bearer old.access.u1'', retry = False\<rparr> = Answer 403 None"
    by (rule sample_protected)
  have again_403: "sample_network \<lparr>url = ''/api/user/profile'', data = None,
                   Authorization = Some ''Bearer old.access.u1'', retry = True\<rparr> = Answer 403 None"
    by (rule sample_protected)
  have renewed: "sample_network
      \<lparr>url = ''/api/auth/refresh'',
       data = Some (JObj [(''refreshToken'', JStr ''live.refresh.u1'')]),
       Authorization = Some ''Bearer old.access.u1'', retry = False\<rparr>
     = Answer 200 (Some ''live.access.u1'')"
    using sample_refresh_live
    by (simp add: requestInterceptor_def post_config_def logged_in_def truthy_def js_string_def)
  have closed_over: "token logged_in = Some ''old.access.u1''"
      "refreshToken logged_in = Some ''live.refresh.u1''"
    by (simp_all add: logged_in_def)
  show "axios (Suc (Suc n)) sample_client_env logged_in profile_request (fresh_client logged_in)
     = Some (Inl \<lparr>config = \<lparr>url = ''/api/user/profile'', data = None,
                              Authorization = Some ''Bearer old.access.u1'', retry = True\<rparr>,
                  response_status = Some 403\<rparr>,
             \<lparr>session = logged_in\<lparr>token := Some ''live.access.u1''\<rparr>,
              localStorage = boot_storage(''token'' \<mapsto> ''live.access.u1''),
              calls = [\<lparr>url = ''/api/user/profile'', data = None,
                        Authorization = Some ''Bearer old.access.u1'', retry = False\<rparr>,
                       \<lparr>url = ''/api/auth/refresh'',
                        data = Some (JObj [(''refreshToken'', JStr ''live.refresh.u1'')]),
                        Authorization = Some ''Bearer old.access.u1'', retry = False\<rparr>,
                       \<lparr>url = ''/api/user/profile'', data = None,
                        Authorization = Some ''Bearer old.access.u1'', retry = True\<rparr>],
              logouts_started = 0\<rparr>)"
    by (simp add: first_403 again_403 renewed closed_over sample_client_env_def
        profile_request_def fresh_client_def requestInterceptor_def truthy_def js_string_def
        json_of_def post_config_def settle_def Let_def dispatch_def)
      (simp add: logged_in_def)
next
  show "network sample_client_env
         \<lparr>url = ''/api/user/profile'', data = None,
          Authorization = Some ''Bearer live.access.u1'', retry = True\<rparr>
     = Answer 200 None"
    by (simp add: sample_client_env_def sample_network_def authenticateToken_def
        header_token_def truthy_def str_of_def sample_env_def sample_verify_def js_or_def
        sample_db_def alice_def)
next
  let ?stale = "logged_in\<lparr>refreshToken := Some ''old.refresh.u1''\<rparr>"
  have refresh_403: "network sample_client_env
             (requestInterceptor ?stale
                (post_config (API_BASE_URL sample_client_env @ ''/auth/refresh'')
                   (Some (JObj [(''refreshToken'', json_of (refreshToken ?stale))]))))
           = Answer 403 None"
    using sample_refresh_expired by (simp add: sample_client_env_def json_of_def)
  have request_403: "network sample_client_env (requestInterceptor ?stale profile_request)
           = Answer 403 None"
    using sample_protected [of False]
    by (simp add: sample_client_env_def requestInterceptor_def profile_request_def logged_in_def
        truthy_def js_string_def)
  have unmarked: "\<not> retry profile_request"
    by (simp add: profile_request_def)
  show "axios n sample_client_env ?stale profile_request (fresh_client ?stale) = None"
    using refresh_403 request_403 unmarked by (rule rejected_403_never_settles)
qed

end
